theory Spec2Isabelle
  imports Complex_Main "HOL-Library.AList" "HOL-Library.Multiset"
begin

section \<open>The gas route of the front end: \<open>src/app/api/gas/route.ts\<close>\<close>

text \<open>
  The route handler \<open>GET\<close> looks a username up at the Python backend (the Resolver),
  attaches a mock gas estimate for two chains to every wallet of the answer, and adds
  three totals. This theory embeds \<open>generateMockGasData\<close> and \<open>GET\<close> and proves what
  the design document says about them.

  Conventions of the embedding.
  \<^item> A JavaScript number is an IEEE double; here it is an exact rational, or \<open>NaN\<close>.
    Products, sums and quotients of rationals are exact: there is no infinity and no
    rounding of the binary representation, so that a value computed here can differ
    from the double the source computes (in the last digit that \<open>toFixed\<close> keeps, or
    by overflow for counts beyond any real one). Everything below is a statement about
    this idealised arithmetic.
  \<^item> A JavaScript string is a list of 8-bit characters, each read as the code unit of
    the same number; code units above 255 are not represented.
  \<^item> \<open>Math.random\<close> is a global generator. The values it returns while one request is
    served are given as a function \<open>draw\<close>: \<open>draw n\<close> is the result of call number
    \<open>n\<close> (from 0), and the position in that sequence is passed along explicitly.
  \<^item> \<open>fetch\<close> is the environment: a function from the requested URL to what happened.
  \<^item> An exception is a value (\<open>Inl\<close>); where the source goes on with values that the
    embedding does not represent (the coercion to a number of something that is not a
    number), the result is \<open>None\<close>.
\<close>

subsection \<open>Numbers\<close>

text \<open>
  A number is a rational or \<open>NaN\<close>. A sum or a product with \<open>NaN\<close> is \<open>NaN\<close>. The
  only division of the source is by the literal \<open>1e18\<close>, so that \<open>divided_by\<close> takes
  the divisor as a rational, which is not 0 where it is used.
\<close>

datatype jsnum = Fin rat | NaN

instantiation jsnum :: "{comm_monoid_add, times}"
begin

definition zero_jsnum :: jsnum where
  "zero_jsnum = Fin 0"

fun plus_jsnum :: "jsnum \<Rightarrow> jsnum \<Rightarrow> jsnum" where
  "plus_jsnum (Fin a) (Fin b) = Fin (a + b)"
| "plus_jsnum x y = NaN"

fun times_jsnum :: "jsnum \<Rightarrow> jsnum \<Rightarrow> jsnum" where
  "times_jsnum (Fin a) (Fin b) = Fin (a * b)"
| "times_jsnum x y = NaN"

instance
proof
  fix u v w :: jsnum
  show "0 + u = u"
    unfolding zero_jsnum_def by (cases u) auto
  show "u + v = v + u"
    by (cases u) (cases v, auto)+
  show "u + v + w = u + (v + w)"
    by (cases u) (cases v, (cases w, auto)+)+
qed

end

fun is_fin :: "jsnum \<Rightarrow> bool" where
  "is_fin (Fin a) = True"
| "is_fin NaN = False"

fun divided_by :: "jsnum \<Rightarrow> rat \<Rightarrow> jsnum" where
  "divided_by (Fin a) d = Fin (a / d)"
| "divided_by NaN d = NaN"

subsection \<open>Values of the handler\<close>

text \<open>
  The values the handler works on: what \<open>response.json()\<close> parsed, and what the handler
  puts into it. A parsed number is never \<open>NaN\<close>; a computed one can be, and
  \<open>NextResponse.json\<close> then writes it as \<open>null\<close>.
\<close>

datatype json =
    JNull
  | JBool bool
  | JNum jsnum
  | JStr string
  | JArr "json list"
  | JObj "(string \<times> json) list"

text \<open>What the handler's \<open>catch\<close> can receive.\<close>

datatype exn =
    FetchFailed
  | BackendError nat
  | JsonSyntaxError
  | TypeError

text \<open>
  Reading a property \<open>v.k\<close>, for the names the handler reads (\<open>success\<close>, \<open>wallets\<close>,
  \<open>eth_tx_count\<close>, \<open>base_tx_count\<close>): on \<open>null\<close> it throws a TypeError, on an object
  it is the member or \<open>undefined\<close> (\<open>None\<close>), on any other parsed value it is
  \<open>undefined\<close>, none of these names being a built-in property of an array, a string, a
  number or a boolean.
\<close>

fun get_prop :: "json \<Rightarrow> string \<Rightarrow> exn + json option" where
  "get_prop JNull k = Inl TypeError"
| "get_prop (JObj kvs) k = Inr (map_of kvs k)"
| "get_prop v k = Inr None"

text \<open>
  Assigning a property \<open>v.k = x\<close> on an object: an existing member keeps its place, a
  new one goes last.
\<close>

fun set_prop :: "json \<Rightarrow> string \<Rightarrow> json \<Rightarrow> json" where
  "set_prop (JObj kvs) k x = JObj (AList.update k x kvs)"
| "set_prop v k x = v"

text \<open>JavaScript truthiness of a value that was read (\<open>None\<close> is \<open>undefined\<close>).\<close>

fun truthy :: "json option \<Rightarrow> bool" where
  "truthy None = False"
| "truthy (Some JNull) = False"
| "truthy (Some (JBool b)) = b"
| "truthy (Some (JNum x)) = (x \<noteq> 0 \<and> x \<noteq> NaN)"
| "truthy (Some (JStr s)) = (s \<noteq> [])"
| "truthy (Some (JArr xs)) = True"
| "truthy (Some (JObj kvs)) = True"

subsection \<open>Strings: \<open>trim\<close> and \<open>encodeURIComponent\<close>\<close>

text \<open>The white space and line terminators of ECMAScript among the code units below 256.\<close>

definition is_js_whitespace :: "char \<Rightarrow> bool" where
  "is_js_whitespace c = ((of_char c :: nat) \<in> {9, 10, 11, 12, 13, 32, 160})"

definition trim :: "string \<Rightarrow> string" where
  "trim s = rev (dropWhile is_js_whitespace (rev (dropWhile is_js_whitespace s)))"

definition hex_digit :: "nat \<Rightarrow> char" where
  "hex_digit d = (''0123456789ABCDEF'') ! d"

definition percent :: "nat \<Rightarrow> string" where
  "percent b = [CHR ''%'', hex_digit (b div 16), hex_digit (b mod 16)]"

definition uri_unreserved :: "char \<Rightarrow> bool" where
  "uri_unreserved c =
     (let n = (of_char c :: nat)
      in (65 \<le> n \<and> n \<le> 90) \<or> (97 \<le> n \<and> n \<le> 122) \<or> (48 \<le> n \<and> n \<le> 57)
         \<or> c \<in> set ''-_.!~*()'' \<or> n = 39)"

text \<open>
  A code unit that is not unreserved is written as the percent-escaped bytes of its
  UTF-8 encoding: one byte below 128, two bytes from 128 to 255.
\<close>

definition encode_unit :: "char \<Rightarrow> string" where
  "encode_unit c =
     (let n = (of_char c :: nat)
      in if uri_unreserved c then [c]
         else if n < 128 then percent n
         else percent (192 + n div 64) @ percent (128 + n mod 64))"

definition encodeURIComponent :: "string \<Rightarrow> string" where
  "encodeURIComponent s = concat (map encode_unit s)"

subsection \<open>\<open>generateMockGasData\<close>\<close>

datatype chain = Eth | Base

record GasInfo =
  gasUsed :: jsnum
  gasCostETH :: jsnum
  gasCostUSD :: jsnum

text \<open>One call of \<open>Math.random()\<close>: the value at the position, and the next position.\<close>

definition Math_random :: "(nat \<Rightarrow> rat) \<Rightarrow> nat \<Rightarrow> rat \<times> nat" where
  "Math_random draw pos = (draw pos, Suc pos)"

text \<open>
  \<open>Number(x.toFixed(d))\<close>: the decimal with \<open>d\<close> fractional digits nearest to \<open>x\<close>, the
  larger one of two equally near; a negative \<open>x\<close> is printed as the minus sign and the
  digits of \<open>-x\<close>. (From \<open>10^21\<close> on \<open>toFixed\<close> prints the number itself; a double of that
  size is an integer, so that this is the same value.) \<open>NaN\<close> is printed as \<open>"NaN"\<close>, which
  \<open>Number\<close> reads as \<open>NaN\<close>.
\<close>

definition round_digits :: "rat \<Rightarrow> nat \<Rightarrow> rat" where
  "round_digits x d =
     (if x < 0 then - (of_int \<lfloor>(- x) * 10 ^ d + 1 / 2\<rfloor> / 10 ^ d)
      else of_int \<lfloor>x * 10 ^ d + 1 / 2\<rfloor> / 10 ^ d)"

fun toFixed :: "jsnum \<Rightarrow> nat \<Rightarrow> jsnum" where
  "toFixed (Fin x) d = Fin (round_digits x d)"
| "toFixed NaN d = NaN"

text \<open>
  The argument \<open>txCount\<close> is the number the caller passed; \<open>undefined\<close> is passed as
  \<open>NaN\<close>, which like \<open>undefined\<close> is not \<open>=== 0\<close> and makes every product \<open>NaN\<close>.
\<close>

definition generateMockGasData :: "(nat \<Rightarrow> rat) \<Rightarrow> jsnum \<Rightarrow> chain \<Rightarrow> nat \<Rightarrow> GasInfo \<times> nat" where
  "generateMockGasData draw txCount chain pos =
     (if txCount = 0 then (\<lparr>gasUsed = 0, gasCostETH = 0, gasCostUSD = 0\<rparr>, pos)
      else
        let (r1, pos1) = Math_random draw pos;
            avgGasPerTx = (if chain = Eth
                           then Fin (of_int \<lfloor>r1 * 80000\<rfloor> + 21000)
                           else Fin (of_int \<lfloor>r1 * 30000\<rfloor> + 21000));
            (r2, pos2) = Math_random draw pos1;
            gasPrice = (if chain = Eth
                        then Fin ((r2 * 30 + 20) * 10 ^ 9)
                        else Fin ((r2 * (9 / 1000) + 1 / 1000) * 10 ^ 9));
            totalGasUsed = avgGasPerTx * txCount;
            gasCostWei = totalGasUsed * gasPrice;
            gasCostETH = divided_by gasCostWei (10 ^ 18);
            ethPrice = Fin 3500;
            gasCostUSD = gasCostETH * ethPrice
        in (\<lparr>gasUsed = totalGasUsed,
             gasCostETH = toFixed gasCostETH 6,
             gasCostUSD = toFixed gasCostUSD 2\<rparr>, pos2))"

subsection \<open>The handler\<close>

text \<open>The estimate as the object literal the source returns.\<close>

definition gas_object :: "GasInfo \<Rightarrow> json" where
  "gas_object g =
     JObj [(''gasUsed'', JNum (gasUsed g)),
           (''gasCostETH'', JNum (gasCostETH g)),
           (''gasCostUSD'', JNum (gasCostUSD g))]"

text \<open>The three accumulators \<open>totalGasETH\<close>, \<open>totalGasBase\<close>, \<open>totalGasUSD\<close>.\<close>

record totals =
  totalGasETH :: jsnum
  totalGasBase :: jsnum
  totalGasUSD :: jsnum

text \<open>
  An argument passed for \<open>txCount\<close>. A number is the number, and \<open>undefined\<close> (the
  wallet has no such field) computes as \<open>NaN\<close>. For a string, a boolean, \<open>null\<close>, an
  array or an object the source computes with the value's coercion to a number, which
  is not represented: \<open>None\<close>.
\<close>

fun number_arg :: "json option \<Rightarrow> jsnum option" where
  "number_arg None = Some NaN"
| "number_arg (Some (JNum x)) = Some x"
| "number_arg v = None"

text \<open>
  The callback of \<open>data.wallets.map\<close>, with the accumulators and the position of the
  random generator as state. A wallet that is \<open>null\<close> throws at \<open>wallet.eth_tx_count\<close>.
  A wallet that is an object is spread into a new object, in which \<open>gas_eth\<close> and
  \<open>gas_base\<close> are then set. Any other wallet (a number, a string, a boolean, an
  array) is outside the embedding.
\<close>

fun wallet_callback ::
  "(nat \<Rightarrow> rat) \<Rightarrow> json \<Rightarrow> totals \<times> nat \<Rightarrow> (exn + json \<times> totals \<times> nat) option" where
  "wallet_callback draw JNull (acc, pos) = Some (Inl TypeError)"
| "wallet_callback draw (JObj kvs) (acc, pos) =
     (case number_arg (map_of kvs ''eth_tx_count'') of
        None \<Rightarrow> None
      | Some n1 \<Rightarrow>
          (case number_arg (map_of kvs ''base_tx_count'') of
             None \<Rightarrow> None
           | Some n2 \<Rightarrow>
               let (ethGas, pos1) = generateMockGasData draw n1 Eth pos;
                   (baseGas, pos2) = generateMockGasData draw n2 Base pos1;
                   acc' = \<lparr>totalGasETH = totalGasETH acc + gasCostETH ethGas,
                           totalGasBase = totalGasBase acc + gasCostETH baseGas,
                           totalGasUSD = totalGasUSD acc + (gasCostUSD ethGas + gasCostUSD baseGas)\<rparr>
               in Some (Inr (JObj (AList.update ''gas_base'' (gas_object baseGas)
                                     (AList.update ''gas_eth'' (gas_object ethGas) kvs)),
                             acc', pos2))))"
| "wallet_callback draw w (acc, pos) = None"

text \<open>\<open>Array.prototype.map\<close> with that callback: elements in order, the first throw ends it.\<close>

fun map_wallets ::
  "(nat \<Rightarrow> rat) \<Rightarrow> json list \<Rightarrow> totals \<times> nat \<Rightarrow> (exn + json list \<times> totals \<times> nat) option" where
  "map_wallets draw [] st = Some (Inr ([], st))"
| "map_wallets draw (w # ws) st =
     (case wallet_callback draw w st of
        None \<Rightarrow> None
      | Some (Inl e) \<Rightarrow> Some (Inl e)
      | Some (Inr (w', st')) \<Rightarrow>
          (case map_wallets draw ws st' of
             None \<Rightarrow> None
           | Some (Inl e) \<Rightarrow> Some (Inl e)
           | Some (Inr (ws', st'')) \<Rightarrow> Some (Inr (w' # ws', st''))))"

text \<open>
  Lines 61 to 85: \<open>if (data.success && data.wallets) { ... }\<close>. A truthy \<open>data.wallets\<close>
  that is not an array has no function \<open>map\<close>, and the call throws a TypeError.
\<close>

definition add_mock_gas :: "(nat \<Rightarrow> rat) \<Rightarrow> json \<Rightarrow> (exn + json) option" where
  "add_mock_gas draw data =
     (case get_prop data ''success'' of
        Inl e \<Rightarrow> Some (Inl e)
      | Inr s \<Rightarrow>
          if \<not> truthy s then Some (Inr data)
          else
            (case get_prop data ''wallets'' of
               Inl e \<Rightarrow> Some (Inl e)
             | Inr w \<Rightarrow>
                 if \<not> truthy w then Some (Inr data)
                 else
                   (case w of
                      Some (JArr ws) \<Rightarrow>
                        (case map_wallets draw ws
                                (\<lparr>totalGasETH = 0, totalGasBase = 0, totalGasUSD = 0\<rparr>, 0) of
                           None \<Rightarrow> None
                         | Some (Inl e) \<Rightarrow> Some (Inl e)
                         | Some (Inr (ws', acc, pos')) \<Rightarrow>
                             Some (Inr
                               (set_prop
                                 (set_prop
                                   (set_prop
                                     (set_prop data ''wallets'' (JArr ws'))
                                     ''total_gas_used_eth'' (JNum (toFixed (totalGasETH acc) 6)))
                                   ''total_gas_used_base'' (JNum (toFixed (totalGasBase acc) 6)))
                                 ''total_gas_usd'' (JNum (toFixed (totalGasUSD acc) 2)))))
                    | _ \<Rightarrow> Some (Inl TypeError))))"

text \<open>
  What \<open>fetch\<close> did: it rejected (no connection), or it resolved to a response with a
  status and a body; the body is the value \<open>response.json()\<close> parses, or \<open>None\<close> when
  it is not JSON and \<open>response.json()\<close> throws. The request is always a \<open>GET\<close> with
  the same header and no caching, so that only its URL is kept.
\<close>

datatype fetch_outcome =
    Rejected
  | Resolved nat "json option"

definition response_ok :: "nat \<Rightarrow> bool" where
  "response_ok st = (200 \<le> st \<and> st \<le> 299)"

text \<open>The body of the \<open>try\<close> block, from the outcome of \<open>fetch\<close> on.\<close>

definition try_block :: "(nat \<Rightarrow> rat) \<Rightarrow> fetch_outcome \<Rightarrow> (exn + json) option" where
  "try_block draw fo =
     (case fo of
        Rejected \<Rightarrow> Some (Inl FetchFailed)
      | Resolved st b \<Rightarrow>
          if \<not> response_ok st then Some (Inl (BackendError st))
          else
            (case b of
               None \<Rightarrow> Some (Inl JsonSyntaxError)
             | Some data \<Rightarrow> add_mock_gas draw data))"

text \<open>\<open>process.env.BACKEND_URL || 'http://localhost:8000'\<close>.\<close>

definition BACKEND_URL :: "string option \<Rightarrow> string" where
  "BACKEND_URL env =
     (case env of
        None \<Rightarrow> ''http://localhost:8000''
      | Some s \<Rightarrow> if s = [] then ''http://localhost:8000'' else s)"

record Response =
  status :: nat
  body :: json

text \<open>
  What one run of the handler leaves: the response, the URLs it fetched, and what it
  wrote with \<open>console.error\<close>.
\<close>

record run =
  response :: Response
  fetched :: "string list"
  console_error :: "exn list"

definition request_url :: "string option \<Rightarrow> string \<Rightarrow> string" where
  "request_url env username =
     BACKEND_URL env @ ''/api/gas?username='' @ encodeURIComponent (trim username)"

text \<open>
  \<open>GET\<close>. The parameter \<open>username\<close> is \<open>searchParams.get('username')\<close>: \<open>None\<close> is
  \<open>null\<close>, the parameter is missing.
\<close>

definition GET ::
  "string option \<Rightarrow> (string \<Rightarrow> fetch_outcome) \<Rightarrow> (nat \<Rightarrow> rat) \<Rightarrow> string option \<Rightarrow> run option" where
  "GET env fetch draw username_param =
     (let bad_request =
            \<lparr>response = \<lparr>status = 400,
                         body = JObj [(''success'', JBool False),
                                      (''error'', JStr ''Username is required'')]\<rparr>,
             fetched = [], console_error = []\<rparr>
      in case username_param of
           None \<Rightarrow> Some bad_request
         | Some username \<Rightarrow>
             if username = [] \<or> trim username = [] then Some bad_request
             else
               let url = request_url env username
               in (case try_block draw (fetch url) of
                     None \<Rightarrow> None
                   | Some (Inr data) \<Rightarrow>
                       Some \<lparr>response = \<lparr>status = 200, body = data\<rparr>,
                             fetched = [url], console_error = []\<rparr>
                   | Some (Inl error) \<Rightarrow>
                       Some \<lparr>response =
                               \<lparr>status = 503,
                                body = JObj [(''success'', JBool False),
                                             (''error'', JStr ''Could not connect to backend. Make sure Python server is running on port 8000.''),
                                             (''username'', JStr username)]\<rparr>,
                             fetched = [url], console_error = [error]\<rparr>))"

subsection \<open>Notions of the design document\<close>

text \<open>
  The design document speaks of the cost fields of an enriched wallet, of a well-formed
  wallet, and of the fields a result carries. \<open>gas_cost w g f\<close> reads \<open>w.g.f\<close> from an
  enriched wallet (0 when it is not there).
\<close>

definition gas_cost :: "json \<Rightarrow> string \<Rightarrow> string \<Rightarrow> jsnum" where
  "gas_cost w g f =
     (case get_prop w g of
        Inr (Some est) \<Rightarrow> (case get_prop est f of Inr (Some (JNum x)) \<Rightarrow> x | _ \<Rightarrow> 0)
      | _ \<Rightarrow> 0)"

text \<open>A wallet as the Resolver is expected to send it: an object with two numeric counts.\<close>

fun is_json_number :: "json option \<Rightarrow> bool" where
  "is_json_number (Some (JNum (Fin x))) = True"
| "is_json_number v = False"

definition wallet_ok :: "json \<Rightarrow> bool" where
  "wallet_ok w =
     (case w of
        JObj kvs \<Rightarrow> is_json_number (map_of kvs ''eth_tx_count'')
                  \<and> is_json_number (map_of kvs ''base_tx_count'')
      | _ \<Rightarrow> False)"

definition carries :: "json \<Rightarrow> string \<Rightarrow> bool" where
  "carries v k = (case get_prop v k of Inr (Some x) \<Rightarrow> True | _ \<Rightarrow> False)"

text \<open>
  The shape the design document gives to a failed lookup: the username and an error
  message, and none of the other fields of a report.
\<close>

definition failed_lookup_shape :: "json \<Rightarrow> bool" where
  "failed_lookup_shape b =
     (carries b ''username'' \<and> carries b ''error''
      \<and> \<not> carries b ''fid'' \<and> \<not> carries b ''display_name'' \<and> \<not> carries b ''pfp_url''
      \<and> \<not> carries b ''wallets'' \<and> \<not> carries b ''primary_wallet''
      \<and> \<not> carries b ''total_gas_used_eth'' \<and> \<not> carries b ''total_gas_used_base''
      \<and> \<not> carries b ''total_gas_usd'')"

subsection \<open>Example data\<close>

text \<open>
  Two wallets, a Resolver that gives the same answer for every URL, and a random
  generator that always returns one half.
\<close>

definition wallet_a :: json where
  "wallet_a = JObj [(''address'', JStr ''0xa''), (''eth_tx_count'', JNum (Fin 100)),
                    (''base_tx_count'', JNum (Fin 50)), (''eth_balance'', JNum (Fin (3 / 2))),
                    (''is_primary'', JBool True)]"

definition wallet_b :: json where
  "wallet_b = JObj [(''address'', JStr ''0xb''), (''eth_tx_count'', JNum (Fin 0)),
                    (''base_tx_count'', JNum (Fin 7)), (''eth_balance'', JNum (Fin 0)),
                    (''is_primary'', JBool False)]"

definition enriched_a :: json where
  "enriched_a = JObj [(''address'', JStr ''0xa''), (''eth_tx_count'', JNum (Fin 100)),
                      (''base_tx_count'', JNum (Fin 50)), (''eth_balance'', JNum (Fin (3 / 2))),
                      (''is_primary'', JBool True),
                      (''gas_eth'', JObj [(''gasUsed'', JNum (Fin 6100000)),
                                          (''gasCostETH'', JNum (Fin (427 / 2000))),
                                          (''gasCostUSD'', JNum (Fin (2989 / 4)))]),
                      (''gas_base'', JObj [(''gasUsed'', JNum (Fin 1800000)),
                                           (''gasCostETH'', JNum (Fin (1 / 100000))),
                                           (''gasCostUSD'', JNum (Fin (3 / 100)))])]"

definition enriched_b :: json where
  "enriched_b = JObj [(''address'', JStr ''0xb''), (''eth_tx_count'', JNum (Fin 0)),
                      (''base_tx_count'', JNum (Fin 7)), (''eth_balance'', JNum (Fin 0)),
                      (''is_primary'', JBool False),
                      (''gas_eth'', JObj [(''gasUsed'', JNum (Fin 0)),
                                          (''gasCostETH'', JNum (Fin 0)),
                                          (''gasCostUSD'', JNum (Fin 0))]),
                      (''gas_base'', JObj [(''gasUsed'', JNum (Fin 252000)),
                                           (''gasCostETH'', JNum (Fin (1 / 1000000))),
                                           (''gasCostUSD'', JNum (Fin 0))])]"

definition found_fields :: "json list \<Rightarrow> (string \<times> json) list" where
  "found_fields ws = [(''success'', JBool True), (''username'', JStr ''dwr.eth''),
                      (''wallets'', JArr ws)]"

definition totalled_fields :: "json list \<Rightarrow> (string \<times> json) list" where
  "totalled_fields es = [(''success'', JBool True), (''username'', JStr ''dwr.eth''),
                         (''wallets'', JArr es),
                         (''total_gas_used_eth'', JNum (Fin (427 / 2000))),
                         (''total_gas_used_base'', JNum (Fin (11 / 1000000))),
                         (''total_gas_usd'', JNum (Fin (18682 / 25)))]"

definition not_found_fields :: "(string \<times> json) list" where
  "not_found_fields = [(''success'', JBool False), (''error'', JStr ''user not found''),
                       (''username'', JStr ''doesnotexist''), (''wallets'', JArr []),
                       (''total_gas_usd'', JNum (Fin 0))]"

definition unlisted_fields :: "(string \<times> json) list" where
  "unlisted_fields = [(''success'', JBool True), (''username'', JStr ''dwr.eth''),
                      (''wallets'', JNull)]"

definition answering :: "nat \<Rightarrow> json option \<Rightarrow> string \<Rightarrow> fetch_outcome" where
  "answering st b url = Resolved st b"

definition unreachable :: "string \<Rightarrow> fetch_outcome" where
  "unreachable url = Rejected"

definition half :: "nat \<Rightarrow> rat" where
  "half n = 1 / 2"

section \<open>Lemmas\<close>

lemma trim_Nil: "trim [] = []"
  by (simp add: trim_def)

lemma GET_bad_request:
  "trim username = [] \<Longrightarrow>
   GET env fetch draw (Some username) =
     Some \<lparr>response = \<lparr>status = 400,
                         body = JObj [(''success'', JBool False),
                                      (''error'', JStr ''Username is required'')]\<rparr>,
           fetched = [], console_error = []\<rparr>"
  by (simp add: GET_def)

lemma GET_fetched:
  "trim username \<noteq> [] \<Longrightarrow>
   GET env fetch draw (Some username) =
     (case try_block draw (fetch (request_url env username)) of
        None \<Rightarrow> None
      | Some (Inr data) \<Rightarrow>
          Some \<lparr>response = \<lparr>status = 200, body = data\<rparr>,
                fetched = [request_url env username], console_error = []\<rparr>
      | Some (Inl error) \<Rightarrow>
          Some \<lparr>response =
                  \<lparr>status = 503,
                   body = JObj [(''success'', JBool False),
                                (''error'', JStr ''Could not connect to backend. Make sure Python server is running on port 8000.''),
                                (''username'', JStr username)]\<rparr>,
                fetched = [request_url env username], console_error = [error]\<rparr>)"
  by (auto simp: GET_def trim_Nil Let_def)

lemma try_block_Rejected: "try_block draw Rejected = Some (Inl FetchFailed)"
  by (simp add: try_block_def)

lemma try_block_not_ok:
  "\<not> response_ok st \<Longrightarrow> try_block draw (Resolved st b) = Some (Inl (BackendError st))"
  by (simp add: try_block_def)

lemma try_block_ok:
  "response_ok st \<Longrightarrow> try_block draw (Resolved st (Some data)) = add_mock_gas draw data"
  by (simp add: try_block_def)

lemma add_mock_gas_falsy:
  "\<not> truthy (map_of kvs ''success'') \<Longrightarrow> add_mock_gas draw (JObj kvs) = Some (Inr (JObj kvs))"
  by (simp add: add_mock_gas_def)

lemma add_mock_gas_no_wallets:
  "\<not> truthy (map_of kvs ''wallets'') \<Longrightarrow> add_mock_gas draw (JObj kvs) = Some (Inr (JObj kvs))"
  by (simp add: add_mock_gas_def)

lemma GET_ok:
  assumes "trim username \<noteq> []"
    and "fetch (request_url env username) = Resolved st (Some data)"
    and "response_ok st"
  shows "GET env fetch draw (Some username) =
     (case add_mock_gas draw data of
        None \<Rightarrow> None
      | Some (Inr out) \<Rightarrow>
          Some \<lparr>response = \<lparr>status = 200, body = out\<rparr>,
                fetched = [request_url env username], console_error = []\<rparr>
      | Some (Inl error) \<Rightarrow>
          Some \<lparr>response =
                  \<lparr>status = 503,
                   body = JObj [(''success'', JBool False),
                                (''error'', JStr ''Could not connect to backend. Make sure Python server is running on port 8000.''),
                                (''username'', JStr username)]\<rparr>,
                fetched = [request_url env username], console_error = [error]\<rparr>)"
  using assms by (simp add: GET_fetched try_block_ok)

lemma GET_passthrough:
  assumes "trim username \<noteq> []"
    and "fetch (request_url env username) = Resolved st (Some (JObj kvs))"
    and "response_ok st"
    and "\<not> truthy (map_of kvs ''success'')"
  shows "GET env fetch draw (Some username) =
     Some \<lparr>response = \<lparr>status = 200, body = JObj kvs\<rparr>,
           fetched = [request_url env username], console_error = []\<rparr>"
  using GET_ok [of username fetch env st "JObj kvs" draw] assms
  by (simp add: add_mock_gas_falsy)

lemma GET_no_wallets:
  assumes "trim username \<noteq> []"
    and "fetch (request_url env username) = Resolved st (Some (JObj kvs))"
    and "response_ok st"
    and "\<not> truthy (map_of kvs ''wallets'')"
  shows "GET env fetch draw (Some username) =
     Some \<lparr>response = \<lparr>status = 200, body = JObj kvs\<rparr>,
           fetched = [request_url env username], console_error = []\<rparr>"
  using GET_ok [of username fetch env st "JObj kvs" draw] assms
  by (simp add: add_mock_gas_no_wallets)

lemma GET_unavailable:
  assumes "trim username \<noteq> []"
    and "fetch (request_url env username) = Rejected
         \<or> (fetch (request_url env username) = Resolved st b \<and> \<not> response_ok st)"
  shows "GET env fetch draw (Some username) =
     Some \<lparr>response =
             \<lparr>status = 503,
              body = JObj [(''success'', JBool False),
                           (''error'', JStr ''Could not connect to backend. Make sure Python server is running on port 8000.''),
                           (''username'', JStr username)]\<rparr>,
           fetched = [request_url env username],
           console_error = [if fetch (request_url env username) = Rejected
                            then FetchFailed else BackendError st]\<rparr>"
  using assms by (auto simp: GET_fetched try_block_Rejected try_block_not_ok)

lemma floor_half: "\<lfloor>1 / 2 :: rat\<rfloor> = 0"
  by (simp add: floor_eq_iff)

lemma round_digits_zero: "round_digits 0 d = 0"
  by (simp add: round_digits_def floor_half)

lemma toFixed_zero: "toFixed 0 d = 0"
  by (simp add: zero_jsnum_def round_digits_zero)

lemma is_fin_plus: "is_fin a \<Longrightarrow> is_fin b \<Longrightarrow> is_fin (a + b)"
  by (cases a; cases b) simp_all

lemma is_fin_toFixed: "is_fin a \<Longrightarrow> is_fin (toFixed a d)"
  by (cases a) simp_all

lemma is_fin_Fin: "is_fin a \<Longrightarrow> \<exists>x. a = Fin x"
  by (cases a) simp_all

lemma generateMockGasData_is_fin:
  "is_fin (gasUsed (fst (generateMockGasData draw (Fin n) chain pos)))
   \<and> is_fin (gasCostETH (fst (generateMockGasData draw (Fin n) chain pos)))
   \<and> is_fin (gasCostUSD (fst (generateMockGasData draw (Fin n) chain pos)))"
  by (simp add: generateMockGasData_def Math_random_def Let_def zero_jsnum_def)

lemma is_json_number_Fin: "is_json_number v \<Longrightarrow> \<exists>x. v = Some (JNum (Fin x))"
  by (cases v rule: is_json_number.cases) simp_all

lemma map_of_gas:
  "map_of (AList.update ''gas_base'' b (AList.update ''gas_eth'' e kvs)) k =
     (if k = ''gas_base'' then Some b else if k = ''gas_eth'' then Some e else map_of kvs k)"
  by (simp add: update_conv')

lemma gas_cost_gas_object:
  "get_prop w g = Inr (Some (gas_object x)) \<Longrightarrow>
   gas_cost w g ''gasCostETH'' = gasCostETH x \<and> gas_cost w g ''gasCostUSD'' = gasCostUSD x"
  by (simp add: gas_cost_def gas_object_def)

lemma wallet_callback_shape:
  assumes "wallet_callback draw w (acc, pos) = Some (Inr (w', acc', pos'))"
  shows "\<exists>kvs n1 n2.
           w = JObj kvs
         \<and> number_arg (map_of kvs ''eth_tx_count'') = Some n1
         \<and> number_arg (map_of kvs ''base_tx_count'') = Some n2
         \<and> w' = JObj (AList.update ''gas_base''
                        (gas_object (fst (generateMockGasData draw n2 Base
                                            (snd (generateMockGasData draw n1 Eth pos)))))
                        (AList.update ''gas_eth''
                           (gas_object (fst (generateMockGasData draw n1 Eth pos))) kvs))
         \<and> totalGasETH acc' = totalGasETH acc + gasCostETH (fst (generateMockGasData draw n1 Eth pos))
         \<and> totalGasBase acc' = totalGasBase acc
              + gasCostETH (fst (generateMockGasData draw n2 Base (snd (generateMockGasData draw n1 Eth pos))))
         \<and> totalGasUSD acc' = totalGasUSD acc
              + (gasCostUSD (fst (generateMockGasData draw n1 Eth pos))
                 + gasCostUSD (fst (generateMockGasData draw n2 Base (snd (generateMockGasData draw n1 Eth pos)))))"
proof (cases w)
  case (JObj kvs)
  obtain n1 where n1: "number_arg (map_of kvs ''eth_tx_count'') = Some n1"
    using assms JObj by (auto split: option.splits)
  obtain n2 where n2: "number_arg (map_of kvs ''base_tx_count'') = Some n2"
    using assms JObj n1 by (auto split: option.splits)
  show ?thesis
    using assms JObj n1 n2
    by (auto simp: Let_def split: prod.splits)
qed (use assms in auto)

lemma wallet_ok_counts:
  assumes "wallet_ok w"
  shows "\<exists>kvs x y. w = JObj kvs
           \<and> map_of kvs ''eth_tx_count'' = Some (JNum (Fin x))
           \<and> map_of kvs ''base_tx_count'' = Some (JNum (Fin y))"
proof (cases w)
  case (JObj kvs)
  from assms JObj have "is_json_number (map_of kvs ''eth_tx_count'')"
    and "is_json_number (map_of kvs ''base_tx_count'')"
    by (simp_all add: wallet_ok_def)
  from is_json_number_Fin [OF this(1)] is_json_number_Fin [OF this(2)] JObj
  show ?thesis by blast
qed (use assms in \<open>simp_all add: wallet_ok_def\<close>)

lemma wallet_callback_ok:
  assumes "wallet_ok w"
  shows "\<exists>w' st'. wallet_callback draw w st = Some (Inr (w', st'))"
proof -
  from wallet_ok_counts [OF assms] obtain kvs x y where
    "w = JObj kvs" "map_of kvs ''eth_tx_count'' = Some (JNum (Fin x))"
    "map_of kvs ''base_tx_count'' = Some (JNum (Fin y))"
    by blast
  then show ?thesis
    by (cases st) (simp add: Let_def split: prod.splits)
qed

lemma wallet_callback_is_fin:
  assumes "wallet_ok w"
    and "wallet_callback draw w (acc, pos) = Some (Inr (w', acc', pos'))"
    and "is_fin (totalGasETH acc)" and "is_fin (totalGasBase acc)" and "is_fin (totalGasUSD acc)"
  shows "is_fin (totalGasETH acc') \<and> is_fin (totalGasBase acc') \<and> is_fin (totalGasUSD acc')"
proof -
  from wallet_ok_counts [OF assms(1)] obtain kvs x y where
    w: "w = JObj kvs" and x: "map_of kvs ''eth_tx_count'' = Some (JNum (Fin x))"
    and y: "map_of kvs ''base_tx_count'' = Some (JNum (Fin y))"
    by blast
  from wallet_callback_shape [OF assms(2)] w x y have
    t: "totalGasETH acc' = totalGasETH acc + gasCostETH (fst (generateMockGasData draw (Fin x) Eth pos))"
      "totalGasBase acc' = totalGasBase acc
         + gasCostETH (fst (generateMockGasData draw (Fin y) Base
                              (snd (generateMockGasData draw (Fin x) Eth pos))))"
      "totalGasUSD acc' = totalGasUSD acc
         + (gasCostUSD (fst (generateMockGasData draw (Fin x) Eth pos))
            + gasCostUSD (fst (generateMockGasData draw (Fin y) Base
                                 (snd (generateMockGasData draw (Fin x) Eth pos)))))"
    by auto
  show ?thesis
    unfolding t using assms(3-5) generateMockGasData_is_fin
    by (simp add: is_fin_plus)
qed

lemma map_wallets_ok:
  "list_all wallet_ok ws \<Longrightarrow> \<exists>es st'. map_wallets draw ws st = Some (Inr (es, st'))"
proof (induction ws arbitrary: st)
  case Nil
  then show ?case by simp
next
  case (Cons w ws)
  from Cons.prems obtain w' st1 where c: "wallet_callback draw w st = Some (Inr (w', st1))"
    using wallet_callback_ok [of w draw st] by auto
  from Cons.prems Cons.IH [of st1] obtain es st2
    where r: "map_wallets draw ws st1 = Some (Inr (es, st2))" by auto
  show ?case using c r by simp
qed

lemma map_wallets_Cons:
  assumes "map_wallets draw (w # ws) st = Some (Inr (es, st''))"
  shows "\<exists>w' st' es'. wallet_callback draw w st = Some (Inr (w', st'))
           \<and> map_wallets draw ws st' = Some (Inr (es', st'')) \<and> es = w' # es'"
  using assms by (auto split: option.splits sum.splits)

lemma map_wallets_length:
  "map_wallets draw ws st = Some (Inr (es, st')) \<Longrightarrow> length es = length ws"
proof (induction ws arbitrary: st es)
  case Nil
  then show ?case by simp
next
  case (Cons w ws)
  from map_wallets_Cons [OF Cons.prems] obtain w' st1 es'
    where "map_wallets draw ws st1 = Some (Inr (es', st'))" and "es = w' # es'" by blast
  then show ?case using Cons.IH by auto
qed


lemma wallet_callback_totals:
  assumes "wallet_callback draw w (acc, pos) = Some (Inr (w', acc', pos'))"
  shows "totalGasETH acc' = totalGasETH acc + gas_cost w' ''gas_eth'' ''gasCostETH''"
    and "totalGasBase acc' = totalGasBase acc + gas_cost w' ''gas_base'' ''gasCostETH''"
    and "totalGasUSD acc' = totalGasUSD acc
           + (gas_cost w' ''gas_eth'' ''gasCostUSD'' + gas_cost w' ''gas_base'' ''gasCostUSD'')"
proof -
  from wallet_callback_shape [OF assms] obtain kvs n1 n2 where
    w': "w' = JObj (AList.update ''gas_base''
                        (gas_object (fst (generateMockGasData draw n2 Base
                                            (snd (generateMockGasData draw n1 Eth pos)))))
                        (AList.update ''gas_eth''
                           (gas_object (fst (generateMockGasData draw n1 Eth pos))) kvs))"
    and t: "totalGasETH acc' = totalGasETH acc + gasCostETH (fst (generateMockGasData draw n1 Eth pos))"
      "totalGasBase acc' = totalGasBase acc
              + gasCostETH (fst (generateMockGasData draw n2 Base (snd (generateMockGasData draw n1 Eth pos))))"
      "totalGasUSD acc' = totalGasUSD acc
              + (gasCostUSD (fst (generateMockGasData draw n1 Eth pos))
                 + gasCostUSD (fst (generateMockGasData draw n2 Base (snd (generateMockGasData draw n1 Eth pos)))))"
    by blast
  have e: "get_prop w' ''gas_eth'' = Inr (Some (gas_object (fst (generateMockGasData draw n1 Eth pos))))"
    by (simp add: w' map_of_gas)
  have b: "get_prop w' ''gas_base'' = Inr (Some (gas_object (fst (generateMockGasData draw n2 Base
                                            (snd (generateMockGasData draw n1 Eth pos))))))"
    by (simp add: w' map_of_gas)
  show "totalGasETH acc' = totalGasETH acc + gas_cost w' ''gas_eth'' ''gasCostETH''"
    using t(1) gas_cost_gas_object [OF e] by simp
  show "totalGasBase acc' = totalGasBase acc + gas_cost w' ''gas_base'' ''gasCostETH''"
    using t(2) gas_cost_gas_object [OF b] by simp
  show "totalGasUSD acc' = totalGasUSD acc
           + (gas_cost w' ''gas_eth'' ''gasCostUSD'' + gas_cost w' ''gas_base'' ''gasCostUSD'')"
    using t(3) gas_cost_gas_object [OF e] gas_cost_gas_object [OF b] by simp
qed

lemma map_wallets_totals:
  "map_wallets draw ws (acc, pos) = Some (Inr (es, acc', pos')) \<Longrightarrow>
     totalGasETH acc' = totalGasETH acc + (\<Sum>e\<leftarrow>es. gas_cost e ''gas_eth'' ''gasCostETH'')
   \<and> totalGasBase acc' = totalGasBase acc + (\<Sum>e\<leftarrow>es. gas_cost e ''gas_base'' ''gasCostETH'')
   \<and> totalGasUSD acc' = totalGasUSD acc
        + (\<Sum>e\<leftarrow>es. gas_cost e ''gas_eth'' ''gasCostUSD'' + gas_cost e ''gas_base'' ''gasCostUSD'')"
proof (induction ws arbitrary: acc pos es)
  case Nil
  then show ?case by simp
next
  case (Cons w ws)
  from map_wallets_Cons [OF Cons.prems] obtain w' st1 es'
    where c: "wallet_callback draw w (acc, pos) = Some (Inr (w', st1))"
      and r: "map_wallets draw ws st1 = Some (Inr (es', acc', pos'))" and e: "es = w' # es'" by blast
  obtain acc1 pos1 where st1: "st1 = (acc1, pos1)" by (cases st1)
  note t = wallet_callback_totals [OF c [unfolded st1]]
  from Cons.IH [OF r [unfolded st1]] show ?case
    by (simp add: e t add.assoc)
qed

lemma map_wallets_is_fin:
  "list_all wallet_ok ws \<Longrightarrow>
   map_wallets draw ws (acc, pos) = Some (Inr (es, acc', pos')) \<Longrightarrow>
   is_fin (totalGasETH acc) \<and> is_fin (totalGasBase acc) \<and> is_fin (totalGasUSD acc) \<Longrightarrow>
   is_fin (totalGasETH acc') \<and> is_fin (totalGasBase acc') \<and> is_fin (totalGasUSD acc')"
proof (induction ws arbitrary: acc pos es)
  case Nil
  then show ?case by simp
next
  case (Cons w ws)
  from map_wallets_Cons [OF Cons.prems(2)] obtain w' st1 es'
    where c: "wallet_callback draw w (acc, pos) = Some (Inr (w', st1))"
      and r: "map_wallets draw ws st1 = Some (Inr (es', acc', pos'))" by blast
  obtain acc1 pos1 where st1: "st1 = (acc1, pos1)" by (cases st1)
  from Cons.prems(1) have w: "wallet_ok w" and ws: "list_all wallet_ok ws" by simp_all
  from wallet_callback_is_fin [OF w c [unfolded st1]] Cons.prems(3)
  have "is_fin (totalGasETH acc1) \<and> is_fin (totalGasBase acc1) \<and> is_fin (totalGasUSD acc1)"
    by blast
  from Cons.IH [OF ws r [unfolded st1] this] show ?case .
qed

lemma add_mock_gas_enriched:
  assumes "truthy (map_of kvs ''success'')"
    and "map_of kvs ''wallets'' = Some (JArr ws)"
    and "map_wallets draw ws (\<lparr>totalGasETH = 0, totalGasBase = 0, totalGasUSD = 0\<rparr>, 0)
           = Some (Inr (es, acc, pos'))"
  shows "add_mock_gas draw (JObj kvs) =
     Some (Inr (JObj
       (AList.update ''total_gas_usd'' (JNum (toFixed (totalGasUSD acc) 2))
         (AList.update ''total_gas_used_base'' (JNum (toFixed (totalGasBase acc) 6))
           (AList.update ''total_gas_used_eth'' (JNum (toFixed (totalGasETH acc) 6))
             (AList.update ''wallets'' (JArr es) kvs))))))"
  using assms by (simp add: add_mock_gas_def)

lemma enriched_reads:
  fixes kvs es a b c
  defines "out \<equiv>
         AList.update ''total_gas_usd'' c
           (AList.update ''total_gas_used_base'' b
             (AList.update ''total_gas_used_eth'' a
               (AList.update ''wallets'' (JArr es) kvs)))"
  shows "map_of out ''wallets'' = Some (JArr es)"
    and "map_of out ''total_gas_used_eth'' = Some a"
    and "map_of out ''total_gas_used_base'' = Some b"
    and "map_of out ''total_gas_usd'' = Some c"
  by (simp_all add: out_def update_conv')

lemma add_mock_gas_success:
  assumes "add_mock_gas draw data = Some (Inr out)"
    and "get_prop data ''success'' = Inr s" and "truthy s"
    and "get_prop data ''wallets'' = Inr w" and "truthy w"
  shows "\<exists>kvs ws es acc pos'.
           data = JObj kvs \<and> map_of kvs ''wallets'' = Some (JArr ws)
         \<and> map_wallets draw ws (\<lparr>totalGasETH = 0, totalGasBase = 0, totalGasUSD = 0\<rparr>, 0)
             = Some (Inr (es, acc, pos'))
         \<and> out = JObj
             (AList.update ''total_gas_usd'' (JNum (toFixed (totalGasUSD acc) 2))
               (AList.update ''total_gas_used_base'' (JNum (toFixed (totalGasBase acc) 6))
                 (AList.update ''total_gas_used_eth'' (JNum (toFixed (totalGasETH acc) 6))
                   (AList.update ''wallets'' (JArr es) kvs))))"
proof (cases data)
  case (JObj kvs)
  have s: "truthy (map_of kvs ''success'')" using assms(2,3) JObj by simp
  have w: "truthy (map_of kvs ''wallets'')" using assms(4,5) JObj by simp
  from assms(1) s w JObj obtain ws where ws: "map_of kvs ''wallets'' = Some (JArr ws)"
    by (auto simp: add_mock_gas_def split: option.splits json.splits)
  from assms(1) s ws JObj obtain es acc pos' where
    m: "map_wallets draw ws (\<lparr>totalGasETH = 0, totalGasBase = 0, totalGasUSD = 0\<rparr>, 0)
             = Some (Inr (es, acc, pos'))"
    by (auto simp: add_mock_gas_def split: option.splits sum.splits)
  show ?thesis
    using assms(1) JObj ws m add_mock_gas_enriched [OF s ws m] by simp
qed (use assms in auto)

lemma sum_list_mset_cong:
  fixes f :: "'a \<Rightarrow> jsnum"
  assumes "mset xs = mset ys"
  shows "(\<Sum>x\<leftarrow>xs. f x) = (\<Sum>y\<leftarrow>ys. f y)"
proof -
  have "mset (map f xs) = mset (map f ys)"
    using assms by (metis mset_map)
  then show ?thesis
    by (metis sum_mset_sum_list)
qed

section \<open>Properties\<close>

subsection \<open>The estimate\<close>

text \<open>
  C1. For both chains, \<open>generateMockGasData\<close> with transaction count 0 returns
  \<open>{gasUsed: 0, gasCostETH: 0, gasCostUSD: 0}\<close>, whatever the random generator would
  return, and it makes no call of \<open>Math.random\<close>: the position is unchanged.
\<close>

theorem C1_zero_count:
  "generateMockGasData draw 0 chain pos = (\<lparr>gasUsed = 0, gasCostETH = 0, gasCostUSD = 0\<rparr>, pos)"
  by (simp add: generateMockGasData_def)

subsection \<open>Validation and failures\<close>

text \<open>
  C3. A username that trims to the empty string (empty, or white space only) is
  answered at once with status 400 and \<open>success: false\<close>, and nothing is fetched from
  the Resolver.
\<close>

theorem C3_empty_username:
  assumes "trim username = []"
  shows "GET env fetch draw (Some username) =
     Some \<lparr>response = \<lparr>status = 400,
                         body = JObj [(''success'', JBool False),
                                      (''error'', JStr ''Username is required'')]\<rparr>,
           fetched = [], console_error = []\<rparr>"
  using assms by (rule GET_bad_request)

text \<open>A blank, a tab and a no-break space trim to nothing.\<close>

theorem C3_empty_username_witness:
  "trim [CHR '' '', CHR 0x09, CHR 0xA0] = [] \<and>
   GET None (answering 200 (Some (JObj (found_fields [wallet_a])))) half
       (Some [CHR '' '', CHR 0x09, CHR 0xA0]) =
     Some \<lparr>response = \<lparr>status = 400,
                         body = JObj [(''success'', JBool False),
                                      (''error'', JStr ''Username is required'')]\<rparr>,
           fetched = [], console_error = []\<rparr>"
proof -
  have h: "trim [CHR '' '', CHR 0x09, CHR 0xA0] = []"
    by (simp add: trim_def is_js_whitespace_def)
  show ?thesis
    using h C3_empty_username [OF h] by simp
qed

text \<open>
  C4. When \<open>fetch\<close> rejects, or resolves to a status outside 200 to 299, the handler
  returns (it does not throw) status 503 with \<open>success: false\<close> and the fixed message
  that the Python server must be running.
\<close>

theorem C4_backend_unavailable:
  assumes "trim username \<noteq> []"
    and "fetch (request_url env username) = Rejected
         \<or> (fetch (request_url env username) = Resolved st b \<and> \<not> response_ok st)"
  shows "GET env fetch draw (Some username) =
     Some \<lparr>response =
             \<lparr>status = 503,
              body = JObj [(''success'', JBool False),
                           (''error'', JStr ''Could not connect to backend. Make sure Python server is running on port 8000.''),
                           (''username'', JStr username)]\<rparr>,
           fetched = [request_url env username],
           console_error = [if fetch (request_url env username) = Rejected
                            then FetchFailed else BackendError st]\<rparr>"
  using assms by (auto simp: GET_fetched try_block_Rejected try_block_not_ok)

text \<open>A Resolver that cannot be reached, and one that answers 500.\<close>

theorem C4_backend_unavailable_witness:
  "trim ''dwr.eth'' \<noteq> []
   \<and> \<not> response_ok 500
   \<and> GET None unreachable half (Some ''dwr.eth'') =
       Some \<lparr>response =
               \<lparr>status = 503,
                body = JObj [(''success'', JBool False),
                             (''error'', JStr ''Could not connect to backend. Make sure Python server is running on port 8000.''),
                             (''username'', JStr ''dwr.eth'')]\<rparr>,
             fetched = [''http://localhost:8000/api/gas?username=dwr.eth''],
             console_error = [FetchFailed]\<rparr>
   \<and> GET None (answering 500 None) half (Some ''dwr.eth'') =
       Some \<lparr>response =
               \<lparr>status = 503,
                body = JObj [(''success'', JBool False),
                             (''error'', JStr ''Could not connect to backend. Make sure Python server is running on port 8000.''),
                             (''username'', JStr ''dwr.eth'')]\<rparr>,
             fetched = [''http://localhost:8000/api/gas?username=dwr.eth''],
             console_error = [BackendError 500]\<rparr>"
proof -
  have h1: "trim ''dwr.eth'' \<noteq> []"
    by (simp add: trim_def is_js_whitespace_def)
  have h3: "\<not> response_ok 500"
    by (simp add: response_ok_def)
  have u: "request_url None ''dwr.eth'' = ''http://localhost:8000/api/gas?username=dwr.eth''"
    by code_simp
  have a: "unreachable (request_url None ''dwr.eth'') = Rejected
         \<or> (unreachable (request_url None ''dwr.eth'') = Resolved 0 None \<and> \<not> response_ok 0)"
    by (simp add: unreachable_def)
  have b: "answering 500 None (request_url None ''dwr.eth'') = Rejected
         \<or> (answering 500 None (request_url None ''dwr.eth'') = Resolved 500 None
             \<and> \<not> response_ok 500)"
    using h3 by (simp add: answering_def)
  from C4_backend_unavailable [where fetch = unreachable and env = None and draw = half, OF h1 a]
       C4_backend_unavailable [where fetch = "answering 500 None" and env = None and draw = half,
                               OF h1 b]
       h1 h3
  show ?thesis
    unfolding u by (simp add: unreachable_def answering_def)
qed

text \<open>
  C5. When the Resolver answers with a status from 200 to 299 and a payload whose
  \<open>success\<close> is \<open>false\<close>, the handler returns that payload as it is: \<open>success: false\<close>,
  the Resolver's own \<open>error\<close> and \<open>username\<close>, nothing added, with status 200, which
  is not the 503 of an unavailable backend.
\<close>

theorem C5_resolver_failure:
  assumes "trim username \<noteq> []"
    and "fetch (request_url env username) = Resolved st (Some (JObj kvs))"
    and "response_ok st"
    and "map_of kvs ''success'' = Some (JBool False)"
  shows "\<exists>r. GET env fetch draw (Some username) = Some r
           \<and> body (response r) = JObj kvs
           \<and> get_prop (body (response r)) ''success'' = Inr (Some (JBool False))
           \<and> get_prop (body (response r)) ''error'' = Inr (map_of kvs ''error'')
           \<and> get_prop (body (response r)) ''username'' = Inr (map_of kvs ''username'')
           \<and> status (response r) = 200 \<and> status (response r) \<noteq> 503
           \<and> console_error r = []"
proof -
  have "\<not> truthy (map_of kvs ''success'')" using assms(4) by simp
  from GET_passthrough [where fetch = fetch and env = env, OF assms(1-3) this]
  show ?thesis
    using assms(4) by simp
qed

text \<open>A Resolver that does not know the user.\<close>

theorem C5_resolver_failure_witness:
  "trim ''doesnotexist'' \<noteq> []
   \<and> response_ok 200
   \<and> map_of not_found_fields ''success'' = Some (JBool False)
   \<and> (\<exists>r. GET None (answering 200 (Some (JObj not_found_fields))) half (Some ''doesnotexist'')
             = Some r
          \<and> body (response r) = JObj not_found_fields
          \<and> get_prop (body (response r)) ''error'' = Inr (Some (JStr ''user not found''))
          \<and> get_prop (body (response r)) ''username'' = Inr (Some (JStr ''doesnotexist''))
          \<and> status (response r) = 200)"
proof -
  have h1: "trim ''doesnotexist'' \<noteq> []"
    by (simp add: trim_def is_js_whitespace_def)
  have h3: "response_ok 200"
    by (simp add: response_ok_def)
  have h2: "answering 200 (Some (JObj not_found_fields)) (request_url None ''doesnotexist'')
              = Resolved 200 (Some (JObj not_found_fields))"
    by (simp add: answering_def)
  have h4: "map_of not_found_fields ''success'' = Some (JBool False)"
    by (simp add: not_found_fields_def)
  have e: "map_of not_found_fields ''error'' = Some (JStr ''user not found'')"
    and n: "map_of not_found_fields ''username'' = Some (JStr ''doesnotexist'')"
    by (simp_all add: not_found_fields_def)
  from C5_resolver_failure
         [where fetch = "answering 200 (Some (JObj not_found_fields))" and env = None
            and draw = half, OF h1 h2 h3 h4] h1 h3 h4
  show ?thesis
    unfolding e n by auto
qed

text \<open>
  C10. When \<open>fetch\<close> rejects or resolves to a status outside 200 to 299, the
  \<open>username\<close> of the 503 result is the query parameter as it was received, not
  trimmed, while the URL that was fetched carries the trimmed username.
\<close>

theorem C10_echo_untrimmed:
  assumes "trim username \<noteq> []"
    and "fetch (request_url env username) = Rejected
         \<or> (fetch (request_url env username) = Resolved st b \<and> \<not> response_ok st)"
  shows "\<exists>r. GET env fetch draw (Some username) = Some r
           \<and> status (response r) = 503
           \<and> get_prop (body (response r)) ''username'' = Inr (Some (JStr username))
           \<and> fetched r = [BACKEND_URL env @ ''/api/gas?username=''
                             @ encodeURIComponent (trim username)]"
  using GET_unavailable [where fetch = fetch and env = env, OF assms]
  by (simp add: request_url_def)

text \<open>A username with a blank on each side.\<close>

theorem C10_echo_untrimmed_witness:
  "trim '' bob '' \<noteq> []
   \<and> trim '' bob '' \<noteq> '' bob ''
   \<and> (\<exists>r. GET None unreachable half (Some '' bob '') = Some r
          \<and> status (response r) = 503
          \<and> get_prop (body (response r)) ''username'' = Inr (Some (JStr '' bob ''))
          \<and> fetched r = [''http://localhost:8000/api/gas?username=bob''])"
proof -
  have h1: "trim '' bob '' \<noteq> []"
    by (simp add: trim_def is_js_whitespace_def)
  have h1': "trim '' bob '' \<noteq> '' bob ''"
    by (simp add: trim_def is_js_whitespace_def)
  have h2: "unreachable (request_url None '' bob '') = Rejected
         \<or> (unreachable (request_url None '' bob '') = Resolved 0 None \<and> \<not> response_ok 0)"
    by (simp add: unreachable_def)
  have u: "BACKEND_URL None @ ''/api/gas?username='' @ encodeURIComponent (trim '' bob '')
             = ''http://localhost:8000/api/gas?username=bob''"
    by code_simp
  from C10_echo_untrimmed [where fetch = unreachable and env = None and draw = half, OF h1 h2]
       h1 h1'
  show ?thesis
    unfolding u by auto
qed

text \<open>
  C7, as the code has it. The result of the validation failure is exactly
  \<open>{success: false, error: 'Username is required'}\<close>: it carries no username. The
  result for an unavailable backend is exactly \<open>success: false\<close>, the fixed error
  message and the username as received. When the Resolver itself reports a failure,
  the result is the Resolver's payload unchanged: it carries an error message and a
  username when the Resolver sent them and not otherwise, and whatever else the
  Resolver sent.
\<close>

theorem C7_failure_results:
  "(trim username = [] \<longrightarrow>
      (\<exists>r. GET env fetch draw (Some username) = Some r
         \<and> body (response r) = JObj [(''success'', JBool False),
                                      (''error'', JStr ''Username is required'')]))
   \<and> (trim username \<noteq> []
        \<and> (fetch (request_url env username) = Rejected
            \<or> (fetch (request_url env username) = Resolved st b \<and> \<not> response_ok st)) \<longrightarrow>
      (\<exists>r. GET env fetch draw (Some username) = Some r
         \<and> body (response r) =
             JObj [(''success'', JBool False),
                   (''error'', JStr ''Could not connect to backend. Make sure Python server is running on port 8000.''),
                   (''username'', JStr username)]))
   \<and> (trim username \<noteq> []
        \<and> fetch (request_url env username) = Resolved st (Some (JObj kvs))
        \<and> response_ok st \<and> \<not> truthy (map_of kvs ''success'') \<longrightarrow>
      (\<exists>r. GET env fetch draw (Some username) = Some r \<and> body (response r) = JObj kvs))"
proof (intro conjI impI)
  assume "trim username = []"
  from GET_bad_request [OF this, of env fetch draw]
  show "\<exists>r. GET env fetch draw (Some username) = Some r
         \<and> body (response r) = JObj [(''success'', JBool False),
                                      (''error'', JStr ''Username is required'')]"
    by simp
next
  assume a: "trim username \<noteq> []
        \<and> (fetch (request_url env username) = Rejected
            \<or> (fetch (request_url env username) = Resolved st b \<and> \<not> response_ok st))"
  then have a1: "trim username \<noteq> []"
    and a2: "fetch (request_url env username) = Rejected
            \<or> (fetch (request_url env username) = Resolved st b \<and> \<not> response_ok st)"
    by simp_all
  from GET_unavailable [where fetch = fetch and env = env, OF a1 a2, of draw]
  show "\<exists>r. GET env fetch draw (Some username) = Some r
         \<and> body (response r) =
             JObj [(''success'', JBool False),
                   (''error'', JStr ''Could not connect to backend. Make sure Python server is running on port 8000.''),
                   (''username'', JStr username)]"
    by simp
next
  assume a: "trim username \<noteq> []
        \<and> fetch (request_url env username) = Resolved st (Some (JObj kvs))
        \<and> response_ok st \<and> \<not> truthy (map_of kvs ''success'')"
  then have a1: "trim username \<noteq> []"
    and a2: "fetch (request_url env username) = Resolved st (Some (JObj kvs))"
    and a3: "response_ok st" and a4: "\<not> truthy (map_of kvs ''success'')"
    by simp_all
  from GET_passthrough [where fetch = fetch and env = env, OF a1 a2 a3 a4, of draw]
  show "\<exists>r. GET env fetch draw (Some username) = Some r \<and> body (response r) = JObj kvs"
    by simp
qed

text \<open>
  The three kinds of failure, each at an input, and a Resolver whose failure payload
  is \<open>{success: false}\<close> alone: the result then carries no error message.
\<close>

theorem C7_failure_results_witness:
  "trim '' '' = []
   \<and> (\<exists>r. GET None unreachable half (Some '' '') = Some r
          \<and> body (response r) = JObj [(''success'', JBool False),
                                       (''error'', JStr ''Username is required'')])
   \<and> trim ''dwr.eth'' \<noteq> []
   \<and> (\<exists>r. GET None unreachable half (Some ''dwr.eth'') = Some r
          \<and> body (response r) =
              JObj [(''success'', JBool False),
                    (''error'', JStr ''Could not connect to backend. Make sure Python server is running on port 8000.''),
                    (''username'', JStr ''dwr.eth'')])
   \<and> response_ok 200
   \<and> (\<exists>r. GET None (answering 200 (Some (JObj not_found_fields))) half (Some ''dwr.eth'') = Some r
          \<and> body (response r) = JObj not_found_fields)
   \<and> (\<exists>r. GET None (answering 200 (Some (JObj [(''success'', JBool False)]))) half
             (Some ''dwr.eth'') = Some r
          \<and> body (response r) = JObj [(''success'', JBool False)])
   \<and> \<not> carries (JObj [(''success'', JBool False)]) ''error''"
proof -
  have h0: "trim '' '' = []" and h1: "trim ''dwr.eth'' \<noteq> []"
    by (simp_all add: trim_def is_js_whitespace_def)
  have h3: "response_ok 200"
    by (simp add: response_ok_def)
  have a: "unreachable (request_url None ''dwr.eth'') = Rejected"
    by (simp add: unreachable_def)
  have b: "answering 200 (Some (JObj not_found_fields)) (request_url None ''dwr.eth'')
             = Resolved 200 (Some (JObj not_found_fields))"
    by (simp add: answering_def)
  have c: "\<not> truthy (map_of not_found_fields ''success'')"
    by (simp add: not_found_fields_def)
  from C7_failure_results [of "'' ''" None unreachable half 0 None "[]"] h0
  have p: "\<exists>r. GET None unreachable half (Some '' '') = Some r
          \<and> body (response r) = JObj [(''success'', JBool False),
                                       (''error'', JStr ''Username is required'')]"
    by blast
  from C7_failure_results [of "''dwr.eth''" None unreachable half 0 None "[]"] h1 a
  have q: "\<exists>r. GET None unreachable half (Some ''dwr.eth'') = Some r
          \<and> body (response r) =
              JObj [(''success'', JBool False),
                    (''error'', JStr ''Could not connect to backend. Make sure Python server is running on port 8000.''),
                    (''username'', JStr ''dwr.eth'')]"
    by blast
  from C7_failure_results [of "''dwr.eth''" None "answering 200 (Some (JObj not_found_fields))"
                              half 200 "Some (JObj not_found_fields)" not_found_fields]
       h1 h3 b c
  have r: "\<exists>r. GET None (answering 200 (Some (JObj not_found_fields))) half (Some ''dwr.eth'') = Some r
          \<and> body (response r) = JObj not_found_fields"
    by blast
  have b': "answering 200 (Some (JObj [(''success'', JBool False)])) (request_url None ''dwr.eth'')
             = Resolved 200 (Some (JObj [(''success'', JBool False)]))"
    by (simp add: answering_def)
  have c': "\<not> truthy (map_of [(''success'', JBool False)] ''success'')"
    by simp
  from C7_failure_results [of "''dwr.eth''" None
                              "answering 200 (Some (JObj [(''success'', JBool False)]))"
                              half 200 "Some (JObj [(''success'', JBool False)])"
                              "[(''success'', JBool False)]"]
       h1 h3 b' c'
  have r': "\<exists>r. GET None (answering 200 (Some (JObj [(''success'', JBool False)]))) half
             (Some ''dwr.eth'') = Some r
          \<and> body (response r) = JObj [(''success'', JBool False)]"
    by blast
  have n: "\<not> carries (JObj [(''success'', JBool False)]) ''error''"
    by (simp add: carries_def)
  show ?thesis
    using h0 p h1 q h3 r r' n by (intro conjI)
qed

text \<open>
  As the design document states it, C7 fails: the result of the validation failure has
  no username, and a failure the Resolver reports is passed on with every field the
  Resolver sent, here with \<open>wallets\<close> and \<open>total_gas_usd\<close>.
\<close>

theorem C7_counterexample:
  "GET None unreachable half (Some '' '')
     = Some \<lparr>response = \<lparr>status = 400,
                           body = JObj [(''success'', JBool False),
                                        (''error'', JStr ''Username is required'')]\<rparr>,
             fetched = [], console_error = []\<rparr>
   \<and> \<not> failed_lookup_shape (JObj [(''success'', JBool False),
                                   (''error'', JStr ''Username is required'')])
   \<and> GET None (answering 200 (Some (JObj not_found_fields))) half (Some ''doesnotexist'')
     = Some \<lparr>response = \<lparr>status = 200, body = JObj not_found_fields\<rparr>,
             fetched = [''http://localhost:8000/api/gas?username=doesnotexist''],
             console_error = []\<rparr>
   \<and> \<not> failed_lookup_shape (JObj not_found_fields)"
  by code_simp

subsection \<open>Enrichment and totals\<close>

text \<open>
  C2, as the code has it. When the Resolver reports success and its payload has a
  list of wallets, each an object with numeric transaction counts, the report has
  status 200 and its three totals are defined, as numbers: each per-chain native total
  is the sum over the returned wallets of that chain's \<open>gasCostETH\<close>, rounded to 6
  fractional digits after the summation, and \<open>total_gas_usd\<close> is the sum over the
  wallets of \<open>gas_eth.gasCostUSD + gas_base.gasCostUSD\<close>, rounded to 2 digits after the
  summation. With an empty list of wallets the three totals are 0. When the Resolver
  reports success and its payload has no \<open>wallets\<close>, or a falsy value there, the payload
  is returned as it is, with status 200, and no total is added.
\<close>

theorem C2_totals:
  assumes "trim username \<noteq> []"
    and "fetch (request_url env username) = Resolved st (Some (JObj kvs))"
    and "response_ok st"
    and "truthy (map_of kvs ''success'')"
  shows "(map_of kvs ''wallets'' = Some (JArr ws) \<and> list_all wallet_ok ws \<longrightarrow>
      (\<exists>r es te tb tu.
          GET env fetch draw (Some username) = Some r
        \<and> status (response r) = 200
        \<and> get_prop (body (response r)) ''wallets'' = Inr (Some (JArr es))
        \<and> length es = length ws
        \<and> get_prop (body (response r)) ''total_gas_used_eth'' = Inr (Some (JNum (Fin te)))
        \<and> Fin te = toFixed (\<Sum>e\<leftarrow>es. gas_cost e ''gas_eth'' ''gasCostETH'') 6
        \<and> get_prop (body (response r)) ''total_gas_used_base'' = Inr (Some (JNum (Fin tb)))
        \<and> Fin tb = toFixed (\<Sum>e\<leftarrow>es. gas_cost e ''gas_base'' ''gasCostETH'') 6
        \<and> get_prop (body (response r)) ''total_gas_usd'' = Inr (Some (JNum (Fin tu)))
        \<and> Fin tu = toFixed
             (\<Sum>e\<leftarrow>es. gas_cost e ''gas_eth'' ''gasCostUSD'' + gas_cost e ''gas_base'' ''gasCostUSD'') 2
        \<and> (if ws = [] then te = 0 \<and> tb = 0 \<and> tu = 0 else True)))
   \<and> (\<not> truthy (map_of kvs ''wallets'') \<longrightarrow>
        GET env fetch draw (Some username) =
          Some \<lparr>response = \<lparr>status = 200, body = JObj kvs\<rparr>,
                fetched = [request_url env username], console_error = []\<rparr>)"
proof (intro conjI impI)
  assume "\<not> truthy (map_of kvs ''wallets'')"
  from GET_no_wallets [where fetch = fetch and env = env, OF assms(1-3) this]
  show "GET env fetch draw (Some username) =
          Some \<lparr>response = \<lparr>status = 200, body = JObj kvs\<rparr>,
                fetched = [request_url env username], console_error = []\<rparr>" .
next
  assume a: "map_of kvs ''wallets'' = Some (JArr ws) \<and> list_all wallet_ok ws"
  then have wl: "map_of kvs ''wallets'' = Some (JArr ws)" and ok: "list_all wallet_ok ws"
    by simp_all
  from map_wallets_ok [OF ok] obtain es acc pos' where
    m: "map_wallets draw ws (\<lparr>totalGasETH = 0, totalGasBase = 0, totalGasUSD = 0\<rparr>, 0)
          = Some (Inr (es, acc, pos'))"
    by (metis prod.exhaust)
  note t = map_wallets_totals [OF m]
  note len = map_wallets_length [OF m]
  have "is_fin (totalGasETH acc) \<and> is_fin (totalGasBase acc) \<and> is_fin (totalGasUSD acc)"
    by (rule map_wallets_is_fin [OF ok m]) (simp add: zero_jsnum_def)
  then have "is_fin (toFixed (totalGasETH acc) 6)" and "is_fin (toFixed (totalGasBase acc) 6)"
    and "is_fin (toFixed (totalGasUSD acc) 2)"
    by (simp_all add: is_fin_toFixed)
  then obtain te tb tu where
    te: "toFixed (totalGasETH acc) 6 = Fin te" and tb: "toFixed (totalGasBase acc) 6 = Fin tb"
    and tu: "toFixed (totalGasUSD acc) 2 = Fin tu"
    by (metis is_fin_Fin)
  let ?out = "JObj
       (AList.update ''total_gas_usd'' (JNum (toFixed (totalGasUSD acc) 2))
         (AList.update ''total_gas_used_base'' (JNum (toFixed (totalGasBase acc) 6))
           (AList.update ''total_gas_used_eth'' (JNum (toFixed (totalGasETH acc) 6))
             (AList.update ''wallets'' (JArr es) kvs))))"
  let ?r = "\<lparr>response = \<lparr>status = 200, body = ?out\<rparr>,
            fetched = [request_url env username], console_error = []\<rparr>"
  have g: "GET env fetch draw (Some username) = Some ?r"
    using GET_ok [of username fetch env st "JObj kvs" draw] assms(1-3)
    by (simp add: add_mock_gas_enriched [OF assms(4) wl m])
  have s6: "Fin te = toFixed (\<Sum>e\<leftarrow>es. gas_cost e ''gas_eth'' ''gasCostETH'') 6"
    and s7: "Fin tb = toFixed (\<Sum>e\<leftarrow>es. gas_cost e ''gas_base'' ''gasCostETH'') 6"
    and s8: "Fin tu = toFixed
             (\<Sum>e\<leftarrow>es. gas_cost e ''gas_eth'' ''gasCostUSD'' + gas_cost e ''gas_base'' ''gasCostUSD'') 2"
    using t te tb tu by simp_all
  have z: "te = 0 \<and> tb = 0 \<and> tu = 0" if "ws = []"
  proof -
    from len that have "es = []" by simp
    with s6 s7 s8 have "Fin te = toFixed 0 6" "Fin tb = toFixed 0 6" "Fin tu = toFixed 0 2"
      by simp_all
    then show ?thesis
      by (simp add: zero_jsnum_def round_digits_zero)
  qed
  have "status (response ?r) = 200
      \<and> get_prop (body (response ?r)) ''wallets'' = Inr (Some (JArr es))
      \<and> length es = length ws
      \<and> get_prop (body (response ?r)) ''total_gas_used_eth'' = Inr (Some (JNum (Fin te)))
      \<and> Fin te = toFixed (\<Sum>e\<leftarrow>es. gas_cost e ''gas_eth'' ''gasCostETH'') 6
      \<and> get_prop (body (response ?r)) ''total_gas_used_base'' = Inr (Some (JNum (Fin tb)))
      \<and> Fin tb = toFixed (\<Sum>e\<leftarrow>es. gas_cost e ''gas_base'' ''gasCostETH'') 6
      \<and> get_prop (body (response ?r)) ''total_gas_usd'' = Inr (Some (JNum (Fin tu)))
      \<and> Fin tu = toFixed
           (\<Sum>e\<leftarrow>es. gas_cost e ''gas_eth'' ''gasCostUSD'' + gas_cost e ''gas_base'' ''gasCostUSD'') 2
      \<and> (if ws = [] then te = 0 \<and> tb = 0 \<and> tu = 0 else True)"
    using len z s6 s7 s8 by (simp add: enriched_reads te tb tu)
  with g show "\<exists>r es te tb tu.
          GET env fetch draw (Some username) = Some r
        \<and> status (response r) = 200
        \<and> get_prop (body (response r)) ''wallets'' = Inr (Some (JArr es))
        \<and> length es = length ws
        \<and> get_prop (body (response r)) ''total_gas_used_eth'' = Inr (Some (JNum (Fin te)))
        \<and> Fin te = toFixed (\<Sum>e\<leftarrow>es. gas_cost e ''gas_eth'' ''gasCostETH'') 6
        \<and> get_prop (body (response r)) ''total_gas_used_base'' = Inr (Some (JNum (Fin tb)))
        \<and> Fin tb = toFixed (\<Sum>e\<leftarrow>es. gas_cost e ''gas_base'' ''gasCostETH'') 6
        \<and> get_prop (body (response r)) ''total_gas_usd'' = Inr (Some (JNum (Fin tu)))
        \<and> Fin tu = toFixed
             (\<Sum>e\<leftarrow>es. gas_cost e ''gas_eth'' ''gasCostUSD'' + gas_cost e ''gas_base'' ''gasCostUSD'') 2
        \<and> (if ws = [] then te = 0 \<and> tb = 0 \<and> tu = 0 else True)"
    by blast
qed

text \<open>
  Two wallets, the empty list of wallets, and a payload whose \<open>wallets\<close> is \<open>null\<close>.
\<close>

theorem C2_totals_witness:
  "trim ''dwr.eth'' \<noteq> []
   \<and> response_ok 200
   \<and> truthy (map_of (found_fields [wallet_a, wallet_b]) ''success'')
   \<and> list_all wallet_ok [wallet_a, wallet_b]
   \<and> (\<exists>r es te tb tu.
        GET None (answering 200 (Some (JObj (found_fields [wallet_a, wallet_b])))) half
            (Some ''dwr.eth'') = Some r
      \<and> status (response r) = 200
      \<and> get_prop (body (response r)) ''wallets'' = Inr (Some (JArr es))
      \<and> length es = 2
      \<and> get_prop (body (response r)) ''total_gas_used_eth'' = Inr (Some (JNum (Fin te)))
      \<and> Fin te = toFixed (\<Sum>e\<leftarrow>es. gas_cost e ''gas_eth'' ''gasCostETH'') 6
      \<and> get_prop (body (response r)) ''total_gas_used_base'' = Inr (Some (JNum (Fin tb)))
      \<and> Fin tb = toFixed (\<Sum>e\<leftarrow>es. gas_cost e ''gas_base'' ''gasCostETH'') 6
      \<and> get_prop (body (response r)) ''total_gas_usd'' = Inr (Some (JNum (Fin tu)))
      \<and> Fin tu = toFixed
           (\<Sum>e\<leftarrow>es. gas_cost e ''gas_eth'' ''gasCostUSD'' + gas_cost e ''gas_base'' ''gasCostUSD'') 2)
   \<and> GET None (answering 200 (Some (JObj (found_fields [wallet_a, wallet_b])))) half
         (Some ''dwr.eth'')
       = Some \<lparr>response = \<lparr>status = 200,
                             body = JObj (totalled_fields [enriched_a, enriched_b])\<rparr>,
               fetched = [''http://localhost:8000/api/gas?username=dwr.eth''],
               console_error = []\<rparr>
   \<and> (\<exists>r. GET None (answering 200 (Some (JObj (found_fields [])))) half (Some ''dwr.eth'') = Some r
      \<and> get_prop (body (response r)) ''total_gas_used_eth'' = Inr (Some (JNum (Fin 0)))
      \<and> get_prop (body (response r)) ''total_gas_used_base'' = Inr (Some (JNum (Fin 0)))
      \<and> get_prop (body (response r)) ''total_gas_usd'' = Inr (Some (JNum (Fin 0))))
   \<and> \<not> truthy (map_of unlisted_fields ''wallets'')
   \<and> GET None (answering 200 (Some (JObj unlisted_fields))) half (Some ''dwr.eth'')
       = Some \<lparr>response = \<lparr>status = 200, body = JObj unlisted_fields\<rparr>,
               fetched = [''http://localhost:8000/api/gas?username=dwr.eth''],
               console_error = []\<rparr>"
proof -
  have h1: "trim ''dwr.eth'' \<noteq> []"
    by (simp add: trim_def is_js_whitespace_def)
  have h3: "response_ok 200"
    by (simp add: response_ok_def)
  have h2: "answering 200 (Some (JObj l)) (request_url None ''dwr.eth'')
              = Resolved 200 (Some (JObj l))" for l
    by (simp add: answering_def)
  have h4: "truthy (map_of (found_fields ws) ''success'')" for ws
    by (simp add: found_fields_def)
  have h5: "map_of (found_fields ws) ''wallets'' = Some (JArr ws)" for ws
    by (simp add: found_fields_def)
  have h6: "list_all wallet_ok [wallet_a, wallet_b]"
    by (simp add: wallet_ok_def wallet_a_def wallet_b_def)
  have g6: "list_all wallet_ok []"
    by simp
  have u4: "truthy (map_of unlisted_fields ''success'')"
    and u5: "\<not> truthy (map_of unlisted_fields ''wallets'')"
    by (simp_all add: unlisted_fields_def)
  have url: "request_url None ''dwr.eth'' = ''http://localhost:8000/api/gas?username=dwr.eth''"
    by code_simp
  have ev: "GET None (answering 200 (Some (JObj (found_fields [wallet_a, wallet_b])))) half
         (Some ''dwr.eth'')
       = Some \<lparr>response = \<lparr>status = 200,
                             body = JObj (totalled_fields [enriched_a, enriched_b])\<rparr>,
               fetched = [''http://localhost:8000/api/gas?username=dwr.eth''],
               console_error = []\<rparr>"
    by code_simp
  note t2 = C2_totals [where fetch = "answering 200 (Some (JObj (found_fields [wallet_a, wallet_b])))"
                    and env = None and draw = half and ws = "[wallet_a, wallet_b]",
                    OF h1 h2 h3 h4]
  from t2 h5 h6 obtain r es te tb tu where
    f: "GET None (answering 200 (Some (JObj (found_fields [wallet_a, wallet_b])))) half
            (Some ''dwr.eth'') = Some r"
      "status (response r) = 200"
      "get_prop (body (response r)) ''wallets'' = Inr (Some (JArr es))"
      "length es = length [wallet_a, wallet_b]"
      "get_prop (body (response r)) ''total_gas_used_eth'' = Inr (Some (JNum (Fin te)))"
      "Fin te = toFixed (\<Sum>e\<leftarrow>es. gas_cost e ''gas_eth'' ''gasCostETH'') 6"
      "get_prop (body (response r)) ''total_gas_used_base'' = Inr (Some (JNum (Fin tb)))"
      "Fin tb = toFixed (\<Sum>e\<leftarrow>es. gas_cost e ''gas_base'' ''gasCostETH'') 6"
      "get_prop (body (response r)) ''total_gas_usd'' = Inr (Some (JNum (Fin tu)))"
      "Fin tu = toFixed
           (\<Sum>e\<leftarrow>es. gas_cost e ''gas_eth'' ''gasCostUSD'' + gas_cost e ''gas_base'' ''gasCostUSD'') 2"
    by blast
  have l2: "length es = 2"
    using f(4) by simp
  have a: "\<exists>r es te tb tu.
        GET None (answering 200 (Some (JObj (found_fields [wallet_a, wallet_b])))) half
            (Some ''dwr.eth'') = Some r
      \<and> status (response r) = 200
      \<and> get_prop (body (response r)) ''wallets'' = Inr (Some (JArr es))
      \<and> length es = 2
      \<and> get_prop (body (response r)) ''total_gas_used_eth'' = Inr (Some (JNum (Fin te)))
      \<and> Fin te = toFixed (\<Sum>e\<leftarrow>es. gas_cost e ''gas_eth'' ''gasCostETH'') 6
      \<and> get_prop (body (response r)) ''total_gas_used_base'' = Inr (Some (JNum (Fin tb)))
      \<and> Fin tb = toFixed (\<Sum>e\<leftarrow>es. gas_cost e ''gas_base'' ''gasCostETH'') 6
      \<and> get_prop (body (response r)) ''total_gas_usd'' = Inr (Some (JNum (Fin tu)))
      \<and> Fin tu = toFixed
           (\<Sum>e\<leftarrow>es. gas_cost e ''gas_eth'' ''gasCostUSD'' + gas_cost e ''gas_base'' ''gasCostUSD'') 2"
    using f(1-3) l2 f(5-10) by blast
  note t0 = C2_totals [where fetch = "answering 200 (Some (JObj (found_fields [])))"
                    and env = None and draw = half and ws = "[]", OF h1 h2 h3 h4]
  from t0 h5 g6 obtain r0 e0 t1 t2 t3 where
    z: "GET None (answering 200 (Some (JObj (found_fields [])))) half (Some ''dwr.eth'') = Some r0"
      "get_prop (body (response r0)) ''total_gas_used_eth'' = Inr (Some (JNum (Fin t1)))"
      "get_prop (body (response r0)) ''total_gas_used_base'' = Inr (Some (JNum (Fin t2)))"
      "get_prop (body (response r0)) ''total_gas_usd'' = Inr (Some (JNum (Fin t3)))"
      "if ([] :: json list) = [] then t1 = 0 \<and> t2 = 0 \<and> t3 = 0 else True"
    by blast
  from z(5) have "t1 = 0" "t2 = 0" "t3 = 0"
    by simp_all
  with z(1-4)
  have b: "\<exists>r. GET None (answering 200 (Some (JObj (found_fields [])))) half (Some ''dwr.eth'') = Some r
      \<and> get_prop (body (response r)) ''total_gas_used_eth'' = Inr (Some (JNum (Fin 0)))
      \<and> get_prop (body (response r)) ''total_gas_used_base'' = Inr (Some (JNum (Fin 0)))
      \<and> get_prop (body (response r)) ''total_gas_usd'' = Inr (Some (JNum (Fin 0)))"
    by blast
  note tn = C2_totals [where fetch = "answering 200 (Some (JObj unlisted_fields))"
                    and env = None and draw = half and ws = "[]", OF h1 h2 h3 u4]
  from tn u5
  have c: "GET None (answering 200 (Some (JObj unlisted_fields))) half (Some ''dwr.eth'')
       = Some \<lparr>response = \<lparr>status = 200, body = JObj unlisted_fields\<rparr>,
               fetched = [''http://localhost:8000/api/gas?username=dwr.eth''],
               console_error = []\<rparr>"
    unfolding url by blast
  show ?thesis
    using h1 h3 h4 [of "[wallet_a, wallet_b]"] h6 a ev b u5 c by (intro conjI)
qed

text \<open>
  As the design document states it, for every success the Resolver reports, C2 fails
  in three ways. The handler adds the totals only when the payload also has a truthy
  \<open>wallets\<close>: a payload with \<open>success: true\<close> and no \<open>wallets\<close> is returned as it is, with
  status 200 and without any of the three totals. A wallet that is \<open>null\<close> makes the
  callback throw, and the request ends with status 503. A wallet without transaction
  counts gets estimates that are \<open>NaN\<close>, and the three totals are \<open>NaN\<close>, not numbers.
\<close>

theorem C2_counterexample:
  "GET None
     (answering 200 (Some (JObj [(''success'', JBool True), (''username'', JStr ''dwr.eth'')])))
     half (Some ''dwr.eth'')
   = Some \<lparr>response = \<lparr>status = 200,
                         body = JObj [(''success'', JBool True), (''username'', JStr ''dwr.eth'')]\<rparr>,
           fetched = [''http://localhost:8000/api/gas?username=dwr.eth''],
           console_error = []\<rparr>
   \<and> get_prop (JObj [(''success'', JBool True), (''username'', JStr ''dwr.eth'')]) ''total_gas_usd''
       = Inr None
   \<and> get_prop (JObj [(''success'', JBool True), (''username'', JStr ''dwr.eth'')]) ''total_gas_used_eth''
       = Inr None
   \<and> get_prop (JObj [(''success'', JBool True), (''username'', JStr ''dwr.eth'')]) ''total_gas_used_base''
       = Inr None
   \<and> GET None (answering 200 (Some (JObj (found_fields [JNull])))) half (Some ''dwr.eth'')
   = Some \<lparr>response =
             \<lparr>status = 503,
              body = JObj [(''success'', JBool False),
                           (''error'', JStr ''Could not connect to backend. Make sure Python server is running on port 8000.''),
                           (''username'', JStr ''dwr.eth'')]\<rparr>,
           fetched = [''http://localhost:8000/api/gas?username=dwr.eth''],
           console_error = [TypeError]\<rparr>
   \<and> GET None (answering 200 (Some (JObj (found_fields [JObj [(''address'', JStr ''0xa'')]]))))
         half (Some ''dwr.eth'')
   = Some \<lparr>response =
             \<lparr>status = 200,
              body = JObj [(''success'', JBool True), (''username'', JStr ''dwr.eth''),
                           (''wallets'', JArr
                              [JObj [(''address'', JStr ''0xa''),
                                     (''gas_eth'', JObj [(''gasUsed'', JNum NaN),
                                                         (''gasCostETH'', JNum NaN),
                                                         (''gasCostUSD'', JNum NaN)]),
                                     (''gas_base'', JObj [(''gasUsed'', JNum NaN),
                                                          (''gasCostETH'', JNum NaN),
                                                          (''gasCostUSD'', JNum NaN)])]]),
                           (''total_gas_used_eth'', JNum NaN),
                           (''total_gas_used_base'', JNum NaN),
                           (''total_gas_usd'', JNum NaN)]\<rparr>,
           fetched = [''http://localhost:8000/api/gas?username=dwr.eth''],
           console_error = []\<rparr>"
  by code_simp



text \<open>
  C9. The three totals of an enriched payload are a function of the multiset of its
  enriched wallets: two runs of the enrichment (over any payloads, with any draws) whose
  returned wallet lists are permutations of each other return the same three totals,
  and each total is the rounded sum over the returned wallets. In particular a run over
  the same enriched list gives the same totals; there is no state besides the
  accumulators, which start at 0 in every run. Sums of rationals are exact, so the
  totals are equal, not only near.
\<close>

theorem C9_totals_of_multiset:
  assumes "truthy (map_of kvs ''success'')" and "truthy (map_of kvs ''wallets'')"
    and "add_mock_gas draw (JObj kvs) = Some (Inr out)"
    and "get_prop out ''wallets'' = Inr (Some (JArr es))"
    and "truthy (map_of kvs' ''success'')" and "truthy (map_of kvs' ''wallets'')"
    and "add_mock_gas draw' (JObj kvs') = Some (Inr out')"
    and "get_prop out' ''wallets'' = Inr (Some (JArr es'))"
    and "mset es = mset es'"
  shows "get_prop out ''total_gas_used_eth'' = get_prop out' ''total_gas_used_eth''
       \<and> get_prop out ''total_gas_used_base'' = get_prop out' ''total_gas_used_base''
       \<and> get_prop out ''total_gas_usd'' = get_prop out' ''total_gas_usd''
       \<and> get_prop out ''total_gas_usd''
           = Inr (Some (JNum (toFixed
               (\<Sum>e\<leftarrow>es. gas_cost e ''gas_eth'' ''gasCostUSD'' + gas_cost e ''gas_base'' ''gasCostUSD'') 2)))"
proof -
  have tot: "get_prop o1 ''total_gas_used_eth''
               = Inr (Some (JNum (toFixed (\<Sum>e\<leftarrow>xs. gas_cost e ''gas_eth'' ''gasCostETH'') 6)))
           \<and> get_prop o1 ''total_gas_used_base''
               = Inr (Some (JNum (toFixed (\<Sum>e\<leftarrow>xs. gas_cost e ''gas_base'' ''gasCostETH'') 6)))
           \<and> get_prop o1 ''total_gas_usd''
               = Inr (Some (JNum (toFixed
                   (\<Sum>e\<leftarrow>xs. gas_cost e ''gas_eth'' ''gasCostUSD'' + gas_cost e ''gas_base'' ''gasCostUSD'') 2)))"
    if a: "truthy (map_of l ''success'')" "truthy (map_of l ''wallets'')"
          "add_mock_gas d (JObj l) = Some (Inr o1)"
          "get_prop o1 ''wallets'' = Inr (Some (JArr xs))"
    for l d o1 xs
  proof -
    from add_mock_gas_success [OF a(3), of "map_of l ''success''" "map_of l ''wallets''"] a(1,2)
    obtain ws zs acc pos' where
      m: "map_wallets d ws (\<lparr>totalGasETH = 0, totalGasBase = 0, totalGasUSD = 0\<rparr>, 0)
             = Some (Inr (zs, acc, pos'))"
      and o: "o1 = JObj
             (AList.update ''total_gas_usd'' (JNum (toFixed (totalGasUSD acc) 2))
               (AList.update ''total_gas_used_base'' (JNum (toFixed (totalGasBase acc) 6))
                 (AList.update ''total_gas_used_eth'' (JNum (toFixed (totalGasETH acc) 6))
                   (AList.update ''wallets'' (JArr zs) l))))"
      by auto
    have "zs = xs" using a(4) by (simp add: o enriched_reads)
    with map_wallets_totals [OF m] show ?thesis
      by (simp add: o enriched_reads)
  qed
  note t = tot [OF assms(1-4)] and t' = tot [OF assms(5-8)]
  note p = sum_list_mset_cong [OF assms(9)]
  show ?thesis
    using t t'
      p [of "\<lambda>e. gas_cost e ''gas_eth'' ''gasCostETH''"]
      p [of "\<lambda>e. gas_cost e ''gas_base'' ''gasCostETH''"]
      p [of "\<lambda>e. gas_cost e ''gas_eth'' ''gasCostUSD'' + gas_cost e ''gas_base'' ''gasCostUSD''"]
    by simp
qed

text \<open>Two wallets in both orders.\<close>

theorem C9_totals_of_multiset_witness:
  "add_mock_gas half (JObj (found_fields [wallet_a, wallet_b]))
     = Some (Inr (JObj (totalled_fields [enriched_a, enriched_b])))
   \<and> add_mock_gas half (JObj (found_fields [wallet_b, wallet_a]))
     = Some (Inr (JObj (totalled_fields [enriched_b, enriched_a])))
   \<and> mset [enriched_a, enriched_b] = mset [enriched_b, enriched_a]
   \<and> get_prop (JObj (totalled_fields [enriched_a, enriched_b])) ''total_gas_usd''
       = Inr (Some (JNum (toFixed
           (\<Sum>e\<leftarrow>[enriched_a, enriched_b].
               gas_cost e ''gas_eth'' ''gasCostUSD'' + gas_cost e ''gas_base'' ''gasCostUSD'') 2)))
   \<and> get_prop (JObj (totalled_fields [enriched_a, enriched_b])) ''total_gas_used_base''
       = get_prop (JObj (totalled_fields [enriched_b, enriched_a])) ''total_gas_used_base''"
proof -
  have k1: "truthy (map_of (found_fields ws) ''success'')" for ws
    by (simp add: found_fields_def)
  have k2: "truthy (map_of (found_fields [x, y]) ''wallets'')" for x y
    by (simp add: found_fields_def)
  have k3: "add_mock_gas half (JObj (found_fields [wallet_a, wallet_b]))
              = Some (Inr (JObj (totalled_fields [enriched_a, enriched_b])))"
    by code_simp
  have l3: "add_mock_gas half (JObj (found_fields [wallet_b, wallet_a]))
              = Some (Inr (JObj (totalled_fields [enriched_b, enriched_a])))"
    by code_simp
  have k4: "get_prop (JObj (totalled_fields es)) ''wallets'' = Inr (Some (JArr es))" for es
    by (simp add: totalled_fields_def)
  have m: "mset [enriched_a, enriched_b] = mset [enriched_b, enriched_a]"
    by (simp add: add.commute)
  note t = C9_totals_of_multiset [OF k1 k2 k3 k4 k1 k2 l3 k4 m]
  from t have u: "get_prop (JObj (totalled_fields [enriched_a, enriched_b])) ''total_gas_usd''
       = Inr (Some (JNum (toFixed
           (\<Sum>e\<leftarrow>[enriched_a, enriched_b].
               gas_cost e ''gas_eth'' ''gasCostUSD'' + gas_cost e ''gas_base'' ''gasCostUSD'') 2)))"
    by blast
  from t have b: "get_prop (JObj (totalled_fields [enriched_a, enriched_b])) ''total_gas_used_base''
       = get_prop (JObj (totalled_fields [enriched_b, enriched_a])) ''total_gas_used_base''"
    by blast
  show ?thesis
    using k3 l3 m u b by (intro conjI)
qed

end
